theory Spec2Isabelle
  imports Main "HOL-Library.Char_ord" "HOL-Library.List_Lexorder" "HOL-Library.Multiset"
begin

section \<open>The corpus store of \<^verbatim>\<open>lab_6_pipeline/pipeline.py\<close>\<close>

text \<open>
  The exceptions \<^verbatim>\<open>CorpusManager\<close> can raise: the two classes the module declares
  (\<^verbatim>\<open>EmptyDirectoryError\<close>, \<^verbatim>\<open>InconsistentDatasetError\<close>), the two builtins
  \<^verbatim>\<open>_validate_dataset\<close> raises by name, and the \<^verbatim>\<open>ValueError\<close> of a file name that
  holds no number.
\<close>

datatype error =
    FileNotFoundError
  | NotADirectoryError
  | EmptyDirectoryError
  | InconsistentDatasetError
  | ValueError

subsection \<open>The file system the store reads\<close>

text \<open>
  A directory is the list of its entries in the order the operating system yields them
  (\<^verbatim>\<open>iterdir\<close>, \<^verbatim>\<open>glob\<close>). An entry is a regular file: its name and its bytes;
  \<^verbatim>\<open>stat().st_size\<close> is the number of bytes. Subdirectories and symbolic links, on
  which \<^verbatim>\<open>stat\<close> can raise, are outside the model. A path names nothing, something
  that is not a directory, or a directory.
\<close>

record dir_entry =
  entry_name :: string
  entry_bytes :: string

datatype fs_node = Absent | NonDirectory | Directory "dir_entry list"

type_synonym filesystem = "string \<Rightarrow> fs_node"

definition st_size :: "dir_entry \<Rightarrow> nat" where
  "st_size f = length (entry_bytes f)"

text \<open>
  \<^verbatim>\<open>path.glob("*_raw.txt")\<close>: the entries whose name ends with \<^verbatim>\<open>_raw.txt\<close>, in
  listing order; nothing when the path is not a directory.
\<close>

definition matches_raw :: "string \<Rightarrow> bool" where
  "matches_raw n \<longleftrightarrow> 8 \<le> length n \<and> drop (length n - 8) n = ''_raw.txt''"

definition glob_raw :: "filesystem \<Rightarrow> string \<Rightarrow> dir_entry list" where
  "glob_raw fs p =
     (case fs p of
        Directory es \<Rightarrow> filter (\<lambda>f. matches_raw (entry_name f)) es
      | _ \<Rightarrow> [])"

subsection \<open>The collaborators from \<^verbatim>\<open>core_utils\<close>\<close>

text \<open>
  Modelled from the spec: \<^verbatim>\<open>core_utils.article.article.Article\<close> is not among the
  sources. The spec's ArticleRecord holds an id and the raw text; the constructor call
  \<^verbatim>\<open>Article(None, article_id)\<close> of \<^verbatim>\<open>_scan_dataset\<close> gives the url and the id, and the
  text starts empty.
\<close>

record Article =
  url :: "string option"
  article_id :: int
  article_text :: string

definition Article_init :: "string option \<Rightarrow> int \<Rightarrow> Article" where
  "Article_init u i = \<lparr>url = u, article_id = i, article_text = []\<rparr>"

text \<open>
  Modelled from the spec: \<^verbatim>\<open>core_utils.article.article.get_article_id_from_filepath\<close> is
  not among the sources. The spec says that, given a file path, it returns the integer
  ID embedded in the name, and that files are named with that ID and a fixed suffix
  (\<^verbatim>\<open>3_raw.txt\<close>). The ID is the decimal number before the first underscore; a name
  that has no such number raises \<^verbatim>\<open>ValueError\<close>.
\<close>

definition is_digit :: "char \<Rightarrow> bool" where
  "is_digit c \<longleftrightarrow> CHR ''0'' \<le> c \<and> c \<le> CHR ''9''"

definition digit_val :: "char \<Rightarrow> int" where
  "digit_val c = int (of_char c) - 48"

definition get_article_id_from_filepath :: "string \<Rightarrow> error + int" where
  "get_article_id_from_filepath n =
     (let ds = takeWhile (\<lambda>c. c \<noteq> CHR ''_'') n
      in if ds \<noteq> [] \<and> list_all is_digit ds
         then Inr (foldl (\<lambda>k c. 10 * k + digit_val c) 0 ds)
         else Inl ValueError)"

text \<open>
  Modelled from the spec: \<^verbatim>\<open>core_utils.article.io.from_raw\<close> is not among the sources.
  The spec says the store loads every file's raw text into the record: the article it is
  given comes back with the file's content as its text.
\<close>

definition from_raw :: "dir_entry \<Rightarrow> Article \<Rightarrow> Article" where
  "from_raw f a = a\<lparr>article_text := entry_bytes f\<rparr>"

subsection \<open>\<^verbatim>\<open>class CorpusManager\<close>\<close>

record CorpusManager =
  path_to_raw_txt_data :: string
  storage :: "int \<rightharpoonup> Article"

text \<open>
  The loop of \<^verbatim>\<open>_validate_dataset\<close> over \<^verbatim>\<open>enumerate(raw_files, 1)\<close>: the ID is
  read first (and may raise), then \<^verbatim>\<open>ind != id or not st_size\<close> decides.
\<close>

fun check_raw_files :: "int \<Rightarrow> dir_entry list \<Rightarrow> error + unit" where
  "check_raw_files ind [] = Inr ()"
| "check_raw_files ind (raw # raws) =
     (case get_article_id_from_filepath (entry_name raw) of
        Inl e \<Rightarrow> Inl e
      | Inr i \<Rightarrow>
          if ind \<noteq> i \<or> st_size raw = 0 then Inl InconsistentDatasetError
          else check_raw_files (ind + 1) raws)"

text \<open>
  \<^verbatim>\<open>_validate_dataset\<close>. \<^verbatim>\<open>any(iterdir())\<close> is true as soon as the directory has one
  entry, whatever its name. \<^verbatim>\<open>sorted\<close> orders the paths of one directory by their
  names, compared as strings, and is stable.
\<close>

definition validate_dataset :: "filesystem \<Rightarrow> CorpusManager \<Rightarrow> error + unit" where
  "validate_dataset fs self =
     (case fs (path_to_raw_txt_data self) of
        Absent \<Rightarrow> Inl FileNotFoundError
      | NonDirectory \<Rightarrow> Inl NotADirectoryError
      | Directory es \<Rightarrow>
          if es = [] then Inl EmptyDirectoryError
          else check_raw_files 1
                 (sort_key entry_name (glob_raw fs (path_to_raw_txt_data self))))"

text \<open>
  The loop of \<^verbatim>\<open>_scan_dataset\<close>: each file is stored under its ID. An exception leaves
  the entries stored so far.
\<close>

fun register_files :: "dir_entry list \<Rightarrow> (int \<rightharpoonup> Article) \<Rightarrow> (error + unit) \<times> (int \<rightharpoonup> Article)" where
  "register_files [] st = (Inr (), st)"
| "register_files (f # fs) st =
     (case get_article_id_from_filepath (entry_name f) of
        Inl e \<Rightarrow> (Inl e, st)
      | Inr i \<Rightarrow> register_files fs (st(i \<mapsto> from_raw f (Article_init None i))))"

definition scan_dataset :: "filesystem \<Rightarrow> CorpusManager \<Rightarrow> (error + unit) \<times> CorpusManager" where
  "scan_dataset fs self =
     (case register_files (glob_raw fs (path_to_raw_txt_data self)) (storage self) of
        (r, st) \<Rightarrow> (r, self\<lparr>storage := st\<rparr>))"

text \<open>
  \<^verbatim>\<open>__init__\<close>: the outcome and the object as the constructor leaves it. When
  validation raises, \<^verbatim>\<open>_scan_dataset\<close> is not reached.
\<close>

definition CorpusManager_init :: "filesystem \<Rightarrow> string \<Rightarrow> (error + unit) \<times> CorpusManager" where
  "CorpusManager_init fs p =
     (let self = \<lparr>path_to_raw_txt_data = p, storage = Map.empty\<rparr>
      in case validate_dataset fs self of
           Inl e \<Rightarrow> (Inl e, self)
         | Inr _ \<Rightarrow> scan_dataset fs self)"

text \<open>\<^verbatim>\<open>get_articles\<close>: the value returned and the object after the call.\<close>

definition get_articles :: "CorpusManager \<Rightarrow> (int \<rightharpoonup> Article) \<times> CorpusManager" where
  "get_articles self = (storage self, self)"

section \<open>The pattern search of \<^verbatim>\<open>lab_6_pipeline/pipeline.py\<close>\<close>

text \<open>
  Modelled from the spec: \<^verbatim>\<open>CoNLLUDocument\<close> and \<^verbatim>\<open>TreeNode\<close> of
  \<^verbatim>\<open>core_utils.pipeline\<close> and \<^verbatim>\<open>DiGraph\<close> of \<^verbatim>\<open>networkx\<close> are not among the
  sources. The spec's data model gives a token its position, part of speech, relation
  and head position; a document is a list of sentences, a sentence a list of tokens; a
  sentence graph has labelled nodes and labelled edges from head to dependent; a match
  tree has a node id, a label and children.
\<close>

record ConlluToken =
  token_position :: int
  token_upos :: string
  token_deprel :: string
  token_head :: int

type_synonym CoNLLUDocument = "ConlluToken list list"

record DiGraph =
  graph_nodes :: "(int \<times> string) list"
  graph_edges :: "(int \<times> int \<times> string) list"

datatype TreeNode = TreeNode int string "TreeNode list"

subsection \<open>\<^verbatim>\<open>class PatternSearchPipeline\<close>\<close>

text \<open>
  In the source every method of the class has its docstring for a body and nothing
  else: \<^verbatim>\<open>__init__\<close> keeps none of its arguments, so an instance has no attribute, and
  each method returns Python's \<^verbatim>\<open>None\<close> (here \<open>None\<close>; \<open>Some\<close> would carry a value of
  the annotated return type) without raising and without touching its arguments. A
  method whose arguments are mutable objects returns them beside its result, as the
  call leaves them.
\<close>

datatype PatternSearchPipeline = PatternSearchPipeline

definition PatternSearchPipeline_init ::
    "CorpusManager \<Rightarrow> 'analyzer \<Rightarrow> string list \<Rightarrow> PatternSearchPipeline" where
  "PatternSearchPipeline_init corpus_manager analyzer pos = PatternSearchPipeline"

definition make_graphs ::
    "PatternSearchPipeline \<Rightarrow> CoNLLUDocument \<Rightarrow> error + DiGraph list option" where
  "make_graphs self doc = Inr None"

definition add_children ::
    "PatternSearchPipeline \<Rightarrow> DiGraph \<Rightarrow> (int \<rightharpoonup> int) \<Rightarrow> int \<Rightarrow> TreeNode
       \<Rightarrow> (error + unit) \<times> DiGraph \<times> TreeNode" where
  "add_children self graph subgraph_to_graph node_id tree_node = (Inr (), graph, tree_node)"

definition find_pattern ::
    "PatternSearchPipeline \<Rightarrow> DiGraph list
       \<Rightarrow> (error + (int \<rightharpoonup> TreeNode list) option) \<times> DiGraph list" where
  "find_pattern self doc_graphs = (Inr None, doc_graphs)"

section \<open>Concrete inputs\<close>

definition raw_entry :: "string \<Rightarrow> string \<Rightarrow> dir_entry" where
  "raw_entry n b = \<lparr>entry_name = n, entry_bytes = b\<rparr>"

text \<open>A file system whose only directory is \<^verbatim>\<open>assets\<close>, holding the given entries.\<close>

definition assets_with :: "dir_entry list \<Rightarrow> filesystem" where
  "assets_with es = (\<lambda>p. if p = ''assets'' then Directory es else Absent)"

text \<open>Ten non-empty articles, IDs 1 to 10, named as the scrapper names them.\<close>

definition ten_articles :: "dir_entry list" where
  "ten_articles =
     [raw_entry ''1_raw.txt'' ''one'', raw_entry ''2_raw.txt'' ''two'',
      raw_entry ''3_raw.txt'' ''three'', raw_entry ''4_raw.txt'' ''four'',
      raw_entry ''5_raw.txt'' ''five'', raw_entry ''6_raw.txt'' ''six'',
      raw_entry ''7_raw.txt'' ''seven'', raw_entry ''8_raw.txt'' ''eight'',
      raw_entry ''9_raw.txt'' ''nine'', raw_entry ''10_raw.txt'' ''ten'']"

text \<open>The corpus with IDs 1, 2 and 4 of the spec, and a corpus of three with a meta file.\<close>

definition gap_articles :: "dir_entry list" where
  "gap_articles =
     [raw_entry ''1_raw.txt'' ''one'', raw_entry ''2_raw.txt'' ''two'',
      raw_entry ''4_raw.txt'' ''four'']"

definition three_articles :: "dir_entry list" where
  "three_articles =
     [raw_entry ''2_raw.txt'' ''two'', raw_entry ''1_meta.json'' ''{}'',
      raw_entry ''1_raw.txt'' ''one'', raw_entry ''3_raw.txt'' ''three'']"

text \<open>A directory that holds one file, which is no raw article.\<close>

definition notes_only :: "dir_entry list" where
  "notes_only = [raw_entry ''notes.txt'' ''todo'']"

text \<open>
  The sentence of the spec's round trip (a verb at position 1, head 0; a noun at
  position 2, head 1), the graph the spec draws for it, and a sentence whose only token
  names position 5 as its head.
\<close>

definition verb_noun_sentence :: "ConlluToken list" where
  "verb_noun_sentence =
     [\<lparr>token_position = 1, token_upos = ''VERB'', token_deprel = ''root'', token_head = 0\<rparr>,
      \<lparr>token_position = 2, token_upos = ''NOUN'', token_deprel = ''obj'', token_head = 1\<rparr>]"

definition verb_noun_graph :: DiGraph where
  "verb_noun_graph =
     \<lparr>graph_nodes = [(0, ''ROOT''), (1, ''VERB''), (2, ''NOUN'')],
      graph_edges = [(0, 1, ''root''), (1, 2, ''obj'')]\<rparr>"

definition dangling_head_sentence :: "ConlluToken list" where
  "dangling_head_sentence =
     [\<lparr>token_position = 1, token_upos = ''NOUN'', token_deprel = ''obj'', token_head = 5\<rparr>]"

section \<open>Validation of the corpus\<close>

lemmas corpus_eval =
  CorpusManager_init_def validate_dataset_def scan_dataset_def glob_raw_def matches_raw_def
  get_article_id_from_filepath_def is_digit_def digit_val_def st_size_def from_raw_def
  Article_init_def assets_with_def raw_entry_def

text \<open>
  The loop of \<^verbatim>\<open>_validate_dataset\<close> passes exactly when the files, in the order it is
  given them, carry the IDs \<open>k, k + 1, \<dots>\<close> and none is empty.
\<close>

lemma check_raw_files_ok_iff:
  "check_raw_files k xs = Inr () \<longleftrightarrow>
     map (get_article_id_from_filepath \<circ> entry_name) xs = map Inr [k..k + int (length xs) - 1]
     \<and> 0 \<notin> st_size ` set xs"
proof (induction xs arbitrary: k)
  case Nil
  then show ?case by simp
next
  case (Cons x xs)
  have up: "[k..k + int (length (x # xs)) - 1] = k # [k + 1..k + 1 + int (length xs) - 1]"
    by (simp add: upto_rec1)
  show ?case
    unfolding up using Cons.IH [of "k + 1"]
    by (auto split: sum.splits)
qed

text \<open>When every name holds an ID, the loop passes or raises \<^verbatim>\<open>InconsistentDatasetError\<close>.\<close>

lemma check_raw_files_outcome:
  "\<forall>f \<in> set xs. \<exists>i. get_article_id_from_filepath (entry_name f) = Inr i \<Longrightarrow>
   check_raw_files k xs = Inr () \<or> check_raw_files k xs = Inl InconsistentDatasetError"
  by (induction xs arbitrary: k) (auto split: sum.splits)

lemma validate_dataset_Directory:
  "fs (path_to_raw_txt_data self) = Directory es \<Longrightarrow>
   validate_dataset fs self =
     (if es = [] then Inl EmptyDirectoryError
      else check_raw_files 1 (sort_key entry_name (glob_raw fs (path_to_raw_txt_data self))))"
  by (simp add: validate_dataset_def)

text \<open>
  A corpus that passes the loop in name order has, in whatever order the directory
  lists it, the IDs \<open>1..N\<close> once each and no empty file.
\<close>

lemma ids_of_passing_corpus:
  assumes ok: "check_raw_files 1 (sort_key entry_name raws) = Inr ()"
    and ids: "map (get_article_id_from_filepath \<circ> entry_name) raws = map Inr ids"
  shows "sort ids = [1..int (length ids)]" and "0 \<notin> st_size ` set raws"
proof -
  let ?g = "get_article_id_from_filepath \<circ> entry_name"
  let ?S = "sort_key entry_name raws"
  have len: "length ids = length raws"
    using arg_cong [OF ids, of length] by simp
  from ok have S: "map ?g ?S = map Inr [1..int (length raws)]" and nz: "0 \<notin> st_size ` set ?S"
    by (simp_all add: check_raw_files_ok_iff)
  from nz show "0 \<notin> st_size ` set raws" by simp
  have "mset (map ?g raws) = mset (map ?g ?S)"
    by simp
  then have "mset (map Inr ids) = mset (map (Inr :: int \<Rightarrow> error + int) [1..int (length raws)])"
    by (simp only: ids S)
  then have "mset (map projr (map (Inr :: int \<Rightarrow> error + int) ids))
           = mset (map projr (map (Inr :: int \<Rightarrow> error + int) [1..int (length raws)]))"
    by (metis mset_map)
  then have "mset ids = mset [1..int (length raws)]"
    by (simp add: comp_def)
  then have "sort ids = [1..int (length raws)]"
    by (intro properties_for_sort) simp_all
  then show "sort ids = [1..int (length ids)]"
    by (simp add: len)
qed

text \<open>
  C1. The claim: a corpus whose raw files have the IDs \<open>1..N\<close>, none empty, constructs
  and yields \<open>N\<close> records. The code sorts the paths as strings, so with ten articles
  \<^verbatim>\<open>10_raw.txt\<close> comes first and meets index 1: the files carry the IDs 1 to 10, none is
  empty, and the constructor raises \<^verbatim>\<open>InconsistentDatasetError\<close> with nothing stored.
\<close>

theorem ten_article_corpus_rejected:
  "glob_raw (assets_with ten_articles) ''assets'' = ten_articles
   \<and> map (get_article_id_from_filepath \<circ> entry_name) ten_articles = map Inr [1..10]
   \<and> 0 \<notin> st_size ` set ten_articles
   \<and> CorpusManager_init (assets_with ten_articles) ''assets'' =
       (Inl InconsistentDatasetError, \<lparr>path_to_raw_txt_data = ''assets'', storage = Map.empty\<rparr>)"
  by (simp add: corpus_eval ten_articles_def upto_rec1)

text \<open>
  C2. In a directory whose raw files all carry an ID, when those IDs, sorted, are not
  \<open>1..N\<close> (a gap or a duplicate) or a raw file is empty, the constructor raises
  \<^verbatim>\<open>InconsistentDatasetError\<close> and the object's storage is still empty. Here \<open>ids\<close> are
  the IDs of the raw files in the order the directory lists them.
\<close>

theorem inconsistent_corpus_rejected:
  assumes dir: "fs p = Directory es"
    and ids: "map (get_article_id_from_filepath \<circ> entry_name) (glob_raw fs p) = map Inr ids"
    and bad: "sort ids \<noteq> [1..int (length ids)] \<or> 0 \<in> st_size ` set (glob_raw fs p)"
  shows "CorpusManager_init fs p =
           (Inl InconsistentDatasetError, \<lparr>path_to_raw_txt_data = p, storage = Map.empty\<rparr>)"
proof -
  let ?raws = "glob_raw fs p"
  let ?self = "\<lparr>path_to_raw_txt_data = p, storage = Map.empty\<rparr>"
  have ne: "es \<noteq> []"
  proof
    assume "es = []"
    with dir have "?raws = []" by (simp add: glob_raw_def)
    with ids bad show False by simp
  qed
  have allid: "\<forall>f \<in> set (sort_key entry_name ?raws). \<exists>i. get_article_id_from_filepath (entry_name f) = Inr i"
  proof
    fix f assume "f \<in> set (sort_key entry_name ?raws)"
    then have "f \<in> set ?raws" by simp
    then have "(get_article_id_from_filepath \<circ> entry_name) f \<in> set (map Inr ids)"
      using ids by (metis image_eqI list.set_map)
    then show "\<exists>i. get_article_id_from_filepath (entry_name f) = Inr i" by auto
  qed
  have "check_raw_files 1 (sort_key entry_name ?raws) \<noteq> Inr ()"
    using ids_of_passing_corpus [OF _ ids] bad by blast
  with check_raw_files_outcome [OF allid, of 1]
  have "check_raw_files 1 (sort_key entry_name ?raws) = Inl InconsistentDatasetError"
    by blast
  then have "validate_dataset fs ?self = Inl InconsistentDatasetError"
    using dir ne by (simp add: validate_dataset_Directory)
  then show ?thesis
    by (simp add: CorpusManager_init_def)
qed

text \<open>The corpus with the IDs 1, 2 and 4: the hypotheses hold and the constructor raises.\<close>

theorem inconsistent_corpus_rejected_witness:
  "assets_with gap_articles ''assets'' = Directory gap_articles
   \<and> map (get_article_id_from_filepath \<circ> entry_name) (glob_raw (assets_with gap_articles) ''assets'')
       = map Inr [1, 2, 4]
   \<and> sort [1, 2, 4] \<noteq> [1..int (length [1, 2, 4 :: int])]
   \<and> CorpusManager_init (assets_with gap_articles) ''assets'' =
       (Inl InconsistentDatasetError, \<lparr>path_to_raw_txt_data = ''assets'', storage = Map.empty\<rparr>)"
proof -
  have dir: "assets_with gap_articles ''assets'' = Directory gap_articles"
    by (simp add: assets_with_def)
  have ids: "map (get_article_id_from_filepath \<circ> entry_name) (glob_raw (assets_with gap_articles) ''assets'')
       = map Inr [1, 2, 4]"
    by (simp add: corpus_eval gap_articles_def)
  have gap: "sort [1, 2, 4] \<noteq> [1..int (length [1, 2, 4 :: int])]"
    by (simp add: upto_rec1)
  from inconsistent_corpus_rejected [OF dir ids disjI1, OF gap] dir ids gap
  show ?thesis by blast
qed

section \<open>The errors of construction\<close>

text \<open>
  C3, as stated, fails. The claim: a path that does not exist raises
  \<^verbatim>\<open>DirectoryNotFoundError\<close>, and a directory with no file matching the naming
  convention raises \<^verbatim>\<open>EmptyDirectoryError\<close>. A directory that holds only
  \<^verbatim>\<open>notes.txt\<close> constructs, with an empty store, and a missing path raises the builtin
  \<^verbatim>\<open>FileNotFoundError\<close>; the module declares no \<^verbatim>\<open>DirectoryNotFoundError\<close>.
\<close>

theorem unmatched_directory_counterexample:
  "CorpusManager_init (assets_with notes_only) ''assets'' =
     (Inr (), \<lparr>path_to_raw_txt_data = ''assets'', storage = Map.empty\<rparr>)
   \<and> fst (CorpusManager_init (assets_with notes_only) ''missing'') = Inl FileNotFoundError"
  by (simp add: corpus_eval notes_only_def)

text \<open>
  C3, amended. The constructor raises \<^verbatim>\<open>FileNotFoundError\<close> when the path does not
  exist, \<^verbatim>\<open>NotADirectoryError\<close> when it exists and is not a directory, and
  \<^verbatim>\<open>EmptyDirectoryError\<close> when it is a directory with no entry at all, each with nothing
  stored; and on any directory that has entries, none of them named \<^verbatim>\<open>*_raw.txt\<close>, it
  succeeds with an empty store.
\<close>

theorem construction_outcomes:
  "(fs p = Absent \<longrightarrow>
      CorpusManager_init fs p =
        (Inl FileNotFoundError, \<lparr>path_to_raw_txt_data = p, storage = Map.empty\<rparr>))
   \<and> (fs p = NonDirectory \<longrightarrow>
      CorpusManager_init fs p =
        (Inl NotADirectoryError, \<lparr>path_to_raw_txt_data = p, storage = Map.empty\<rparr>))
   \<and> (fs p = Directory [] \<longrightarrow>
      CorpusManager_init fs p =
        (Inl EmptyDirectoryError, \<lparr>path_to_raw_txt_data = p, storage = Map.empty\<rparr>))
   \<and> (fs p = Directory es \<and> es \<noteq> [] \<and> (\<forall>e \<in> set es. \<not> matches_raw (entry_name e)) \<longrightarrow>
      CorpusManager_init fs p =
        (Inr (), \<lparr>path_to_raw_txt_data = p, storage = Map.empty\<rparr>))"
proof (intro conjI impI)
  assume "fs p = Absent"
  then show "CorpusManager_init fs p =
        (Inl FileNotFoundError, \<lparr>path_to_raw_txt_data = p, storage = Map.empty\<rparr>)"
    by (simp add: CorpusManager_init_def validate_dataset_def)
next
  assume "fs p = NonDirectory"
  then show "CorpusManager_init fs p =
        (Inl NotADirectoryError, \<lparr>path_to_raw_txt_data = p, storage = Map.empty\<rparr>)"
    by (simp add: CorpusManager_init_def validate_dataset_def)
next
  assume "fs p = Directory []"
  then show "CorpusManager_init fs p =
        (Inl EmptyDirectoryError, \<lparr>path_to_raw_txt_data = p, storage = Map.empty\<rparr>)"
    by (simp add: CorpusManager_init_def validate_dataset_def)
next
  assume a: "fs p = Directory es \<and> es \<noteq> [] \<and> (\<forall>e \<in> set es. \<not> matches_raw (entry_name e))"
  then have none: "glob_raw fs p = []"
    by (simp add: glob_raw_def)
  from a none show "CorpusManager_init fs p =
        (Inr (), \<lparr>path_to_raw_txt_data = p, storage = Map.empty\<rparr>)"
    by (simp add: CorpusManager_init_def validate_dataset_def scan_dataset_def)
qed

text \<open>The four cases, each at a concrete path.\<close>

theorem construction_outcomes_witness:
  "CorpusManager_init (assets_with []) ''missing'' =
     (Inl FileNotFoundError, \<lparr>path_to_raw_txt_data = ''missing'', storage = Map.empty\<rparr>)
   \<and> CorpusManager_init ((assets_with []) (''notes.txt'' := NonDirectory)) ''notes.txt'' =
     (Inl NotADirectoryError, \<lparr>path_to_raw_txt_data = ''notes.txt'', storage = Map.empty\<rparr>)
   \<and> CorpusManager_init (assets_with []) ''assets'' =
     (Inl EmptyDirectoryError, \<lparr>path_to_raw_txt_data = ''assets'', storage = Map.empty\<rparr>)
   \<and> CorpusManager_init (assets_with notes_only) ''assets'' =
     (Inr (), \<lparr>path_to_raw_txt_data = ''assets'', storage = Map.empty\<rparr>)"
proof -
  have absent: "assets_with [] ''missing'' = Absent"
    by (simp add: assets_with_def)
  have nondir: "((assets_with []) (''notes.txt'' := NonDirectory)) ''notes.txt'' = NonDirectory"
    by simp
  have empty: "assets_with [] ''assets'' = Directory []"
    by (simp add: assets_with_def)
  have unmatched: "assets_with notes_only ''assets'' = Directory notes_only \<and> notes_only \<noteq> []
      \<and> (\<forall>e \<in> set notes_only. \<not> matches_raw (entry_name e))"
    by (simp add: assets_with_def notes_only_def raw_entry_def matches_raw_def)
  from absent construction_outcomes [of "assets_with []" "''missing''"]
  have 1: "CorpusManager_init (assets_with []) ''missing'' =
     (Inl FileNotFoundError, \<lparr>path_to_raw_txt_data = ''missing'', storage = Map.empty\<rparr>)"
    by blast
  from nondir construction_outcomes [of "(assets_with []) (''notes.txt'' := NonDirectory)" "''notes.txt''"]
  have 2: "CorpusManager_init ((assets_with []) (''notes.txt'' := NonDirectory)) ''notes.txt'' =
     (Inl NotADirectoryError, \<lparr>path_to_raw_txt_data = ''notes.txt'', storage = Map.empty\<rparr>)"
    by blast
  from empty construction_outcomes [of "assets_with []" "''assets''"]
  have 3: "CorpusManager_init (assets_with []) ''assets'' =
     (Inl EmptyDirectoryError, \<lparr>path_to_raw_txt_data = ''assets'', storage = Map.empty\<rparr>)"
    by blast
  from unmatched construction_outcomes [of "assets_with notes_only" "''assets''" notes_only]
  have 4: "CorpusManager_init (assets_with notes_only) ''assets'' =
     (Inr (), \<lparr>path_to_raw_txt_data = ''assets'', storage = Map.empty\<rparr>)"
    by blast
  from 1 2 3 4 show ?thesis by blast
qed

section \<open>The store after construction\<close>

text \<open>
  C9. \<^verbatim>\<open>get_articles\<close> returns the object's mapping and leaves the object as it was, so
  a further call returns the same mapping again. It is the one operation of the class
  besides the constructor and its two steps.
\<close>

theorem get_articles_read_only:
  "fst (get_articles self) = storage self
   \<and> snd (get_articles self) = self
   \<and> get_articles (snd (get_articles self)) = get_articles self"
  by (simp add: get_articles_def)

text \<open>The scan keeps every record under the ID the record itself carries.\<close>

lemma register_files_keys:
  assumes "register_files xs st = (r, st')"
    and "\<And>k a. st k = Some a \<Longrightarrow> article_id a = k"
    and "st' k = Some a"
  shows "article_id a = k"
  using assms
proof (induction xs arbitrary: st)
  case Nil
  then show ?case by simp
next
  case (Cons x xs)
  show ?case
  proof (cases "get_article_id_from_filepath (entry_name x)")
    case (Inl e)
    with Cons.prems show ?thesis by simp
  next
    case (Inr i)
    let ?st = "st(i \<mapsto> from_raw x (Article_init None i))"
    from Inr Cons.prems(1) have run: "register_files xs ?st = (r, st')" by simp
    have inv: "article_id b = j" if "?st j = Some b" for j b
      using that Cons.prems(2) [of j b]
      by (auto simp: from_raw_def Article_init_def split: if_splits)
    from Cons.IH [OF run inv Cons.prems(3)] show ?thesis .
  qed
qed

text \<open>
  C10. Whatever the outcome of construction, a record that \<^verbatim>\<open>get_articles\<close> holds under
  key \<open>k\<close> has \<open>k\<close> for its article id.
\<close>

theorem storage_key_is_article_id:
  assumes "CorpusManager_init fs p = (r, cm)"
    and "fst (get_articles cm) k = Some a"
  shows "article_id a = k"
proof -
  let ?self = "\<lparr>path_to_raw_txt_data = p, storage = Map.empty\<rparr>"
  show ?thesis
  proof (cases "validate_dataset fs ?self")
    case (Inl e)
    with assms(1) have "storage cm = Map.empty"
      by (auto simp: CorpusManager_init_def)
    with assms(2) show ?thesis by (simp add: get_articles_def)
  next
    case (Inr u)
    with assms(1) have "scan_dataset fs ?self = (r, cm)"
      by (simp add: CorpusManager_init_def)
    then obtain st where reg: "register_files (glob_raw fs p) Map.empty = (r, st)"
      and cm: "storage cm = st"
      by (auto simp: scan_dataset_def split: prod.splits)
    from assms(2) cm have "st k = Some a" by (simp add: get_articles_def)
    with register_files_keys [OF reg] show ?thesis by simp
  qed
qed

text \<open>Three articles and a meta file: the store, and the record under key 2.\<close>

theorem storage_key_is_article_id_witness:
  "CorpusManager_init (assets_with three_articles) ''assets'' =
     (Inr (), \<lparr>path_to_raw_txt_data = ''assets'',
        storage = [1 \<mapsto> \<lparr>url = None, article_id = 1, article_text = ''one''\<rparr>,
                   2 \<mapsto> \<lparr>url = None, article_id = 2, article_text = ''two''\<rparr>,
                   3 \<mapsto> \<lparr>url = None, article_id = 3, article_text = ''three''\<rparr>]\<rparr>)
   \<and> fst (get_articles (snd (CorpusManager_init (assets_with three_articles) ''assets''))) 2
       = Some \<lparr>url = None, article_id = 2, article_text = ''two''\<rparr>
   \<and> article_id \<lparr>url = None, article_id = 2, article_text = ''two''\<rparr> = 2"
proof -
  have init: "CorpusManager_init (assets_with three_articles) ''assets'' =
     (Inr (), \<lparr>path_to_raw_txt_data = ''assets'',
        storage = [1 \<mapsto> \<lparr>url = None, article_id = 1, article_text = ''one''\<rparr>,
                   2 \<mapsto> \<lparr>url = None, article_id = 2, article_text = ''two''\<rparr>,
                   3 \<mapsto> \<lparr>url = None, article_id = 3, article_text = ''three''\<rparr>]\<rparr>)"
    by (auto simp: corpus_eval three_articles_def)
  have get: "fst (get_articles (snd (CorpusManager_init (assets_with three_articles) ''assets''))) 2
       = Some \<lparr>url = None, article_id = 2, article_text = ''two''\<rparr>"
    by (simp add: init get_articles_def)
  from storage_key_is_article_id [OF init] get init
  show ?thesis by simp
qed

subsection \<open>What a successful construction stores\<close>

text \<open>
  When every name holds an ID, the scan stores a record for each ID met, and, the IDs
  being distinct, the record of each file under the file's ID.
\<close>

lemma register_files_result:
  assumes "\<forall>f \<in> set xs. \<exists>i. get_article_id_from_filepath (entry_name f) = Inr i"
  shows "\<exists>st'. register_files xs st = (Inr (), st')
     \<and> dom st' = dom st \<union> {i. \<exists>f \<in> set xs. get_article_id_from_filepath (entry_name f) = Inr i}
     \<and> (distinct (map (get_article_id_from_filepath \<circ> entry_name) xs) \<longrightarrow>
          (\<forall>f \<in> set xs. \<forall>i. get_article_id_from_filepath (entry_name f) = Inr i \<longrightarrow> st' i = Some (from_raw f (Article_init None i))))
     \<and> (\<forall>i. (\<forall>f \<in> set xs. get_article_id_from_filepath (entry_name f) \<noteq> Inr i) \<longrightarrow> st' i = st i)"
  using assms
proof (induction xs arbitrary: st)
  case Nil
  then show ?case by simp
next
  case (Cons x xs)
  then obtain i where i: "get_article_id_from_filepath (entry_name x) = Inr i"
    by auto
  let ?st = "st(i \<mapsto> from_raw x (Article_init None i))"
  from Cons.prems have "\<forall>f \<in> set xs. \<exists>i. get_article_id_from_filepath (entry_name f) = Inr i"
    by simp
  from Cons.IH [OF this, of ?st] obtain st' where
    run: "register_files xs ?st = (Inr (), st')"
    and dom: "dom st' = dom ?st \<union> {i. \<exists>f \<in> set xs. get_article_id_from_filepath (entry_name f) = Inr i}"
    and get: "distinct (map (get_article_id_from_filepath \<circ> entry_name) xs) \<Longrightarrow>
          f \<in> set xs \<Longrightarrow> get_article_id_from_filepath (entry_name f) = Inr j \<Longrightarrow> st' j = Some (from_raw f (Article_init None j))"
    and keep: "(\<forall>f \<in> set xs. get_article_id_from_filepath (entry_name f) \<noteq> Inr j) \<Longrightarrow> st' j = ?st j"
    for f j
    by blast
  have 1: "register_files (x # xs) st = (Inr (), st')"
    using run i by simp
  have 2: "dom st' = dom st \<union> {i. \<exists>f \<in> set (x # xs). get_article_id_from_filepath (entry_name f) = Inr i}"
    unfolding dom using i by auto
  have 3: "st' j = Some (from_raw f (Article_init None j))"
    if d: "distinct (map (get_article_id_from_filepath \<circ> entry_name) (x # xs))"
      and f: "f \<in> set (x # xs)" and j: "get_article_id_from_filepath (entry_name f) = Inr j" for f j
  proof (cases "f \<in> set xs")
    case True
    with d j get show ?thesis by simp
  next
    case False
    with f have fx: "f = x" by simp
    with i j have ji: "j = i" by simp
    from d have "\<forall>f \<in> set xs. get_article_id_from_filepath (entry_name f) \<noteq> Inr i"
      using i by (auto simp: image_iff)
    from keep [of i] this have "st' i = Some (from_raw x (Article_init None i))" by simp
    with fx ji show ?thesis by simp
  qed
  have 4: "st' j = st j"
    if "\<forall>f \<in> set (x # xs). get_article_id_from_filepath (entry_name f) \<noteq> Inr j" for j
    using keep [of j] that i by auto
  from 1 2 3 4 show ?case by blast
qed

text \<open>
  When the constructor succeeds, the store has the keys \<open>1..N\<close> for the \<open>N\<close> raw files
  of the directory, and each file's text is under the file's ID.
\<close>

lemma construction_success:
  assumes init: "CorpusManager_init fs p = (Inr (), cm)"
  shows "dom (storage cm) = {1..int (length (glob_raw fs p))}"
    and "f \<in> set (glob_raw fs p) \<Longrightarrow>
         \<exists>i. get_article_id_from_filepath (entry_name f) = Inr i
            \<and> storage cm i = Some \<lparr>url = None, article_id = i, article_text = entry_bytes f\<rparr>"
proof -
  let ?self = "\<lparr>path_to_raw_txt_data = p, storage = Map.empty\<rparr>"
  let ?g = "get_article_id_from_filepath \<circ> entry_name"
  let ?raws = "glob_raw fs p"
  let ?n = "int (length ?raws)"
  from init have val: "validate_dataset fs ?self = Inr ()"
    and scan: "scan_dataset fs ?self = (Inr (), cm)"
    by (auto simp: CorpusManager_init_def Let_def split: sum.splits)
  from val have "check_raw_files 1 (sort_key entry_name ?raws) = Inr ()"
    by (auto simp: validate_dataset_def split: fs_node.splits if_splits)
  then have S: "map ?g (sort_key entry_name ?raws) = map Inr [1..?n]"
    by (simp add: check_raw_files_ok_iff)
  have "mset (map ?g ?raws) = mset (map ?g (sort_key entry_name ?raws))"
    by simp
  then have ms: "mset (map ?g ?raws) = mset (map Inr [1..?n])"
    by (simp only: S)
  have set: "set (map ?g ?raws) = Inr ` {1..?n}"
    using mset_eq_setD [OF ms] by simp
  have "distinct (map (Inr :: int \<Rightarrow> error + int) [1..?n])"
    by (simp add: distinct_map)
  then have dist: "distinct (map ?g ?raws)"
    using mset_eq_imp_distinct_iff [OF ms] by simp
  have parse: "\<forall>f \<in> set ?raws. \<exists>i. get_article_id_from_filepath (entry_name f) = Inr i"
  proof
    fix f assume "f \<in> set ?raws"
    then have "?g f \<in> set (map ?g ?raws)" by simp
    with set show "\<exists>i. get_article_id_from_filepath (entry_name f) = Inr i" by auto
  qed
  from register_files_result [OF parse, of Map.empty] dist obtain st where
    run: "register_files ?raws Map.empty = (Inr (), st)"
    and dom: "dom st = {i. \<exists>f \<in> set ?raws. get_article_id_from_filepath (entry_name f) = Inr i}"
    and get: "\<And>f i. f \<in> set ?raws \<Longrightarrow> get_article_id_from_filepath (entry_name f) = Inr i \<Longrightarrow>
                st i = Some (from_raw f (Article_init None i))"
    by auto
  from scan run have cm: "storage cm = st"
    by (auto simp: scan_dataset_def)
  have "{i. \<exists>f \<in> set ?raws. get_article_id_from_filepath (entry_name f) = Inr i} = {1..?n}"
  proof (intro set_eqI iffI)
    fix i assume "i \<in> {i. \<exists>f \<in> set ?raws. get_article_id_from_filepath (entry_name f) = Inr i}"
    then obtain f where "f \<in> set ?raws" and "?g f = Inr i" by auto
    then have "Inr i \<in> set (map ?g ?raws)" by (metis image_eqI list.set_map)
    with set show "i \<in> {1..?n}" by auto
  next
    fix i assume "i \<in> {1..?n}"
    with set have "Inr i \<in> set (map ?g ?raws)" by blast
    then obtain f where "f \<in> set ?raws" and "?g f = Inr i" by auto
    then show "i \<in> {i. \<exists>f \<in> set ?raws. get_article_id_from_filepath (entry_name f) = Inr i}"
      by auto
  qed
  with dom cm show "dom (storage cm) = {1..?n}" by simp
  show "\<exists>i. get_article_id_from_filepath (entry_name f) = Inr i
            \<and> storage cm i = Some \<lparr>url = None, article_id = i, article_text = entry_bytes f\<rparr>"
    if f: "f \<in> set ?raws"
  proof -
    from parse f obtain i where i: "get_article_id_from_filepath (entry_name f) = Inr i" by blast
    from get [OF f i] cm have "storage cm i = Some \<lparr>url = None, article_id = i, article_text = entry_bytes f\<rparr>"
      by (simp add: from_raw_def Article_init_def)
    with i show ?thesis by blast
  qed
qed

section \<open>Graphs and patterns\<close>

text \<open>
  C4. The claim: one sentence graph for each sentence of the document. For a document
  of one sentence, the verb and noun of the spec, \<^verbatim>\<open>_make_graphs\<close> returns \<^verbatim>\<open>None\<close>: no
  list, no graph.
\<close>

theorem make_graphs_builds_nothing:
  "make_graphs self [verb_noun_sentence] = Inr None"
  by (simp add: make_graphs_def)

text \<open>
  C5. The claim: a mapping from sentence index to match trees, one tree for each
  qualifying root. On the graph of that sentence, whose node 1 is a verb with a noun
  for a child, \<^verbatim>\<open>_find_pattern\<close> of a pipeline made for the pattern verb, object, noun
  returns \<^verbatim>\<open>None\<close>: no mapping, no tree.
\<close>

theorem find_pattern_matches_nothing:
  "find_pattern (PatternSearchPipeline_init corpus_manager analyzer [''VERB'', ''obj'', ''NOUN''])
     [verb_noun_graph] = (Inr None, [verb_noun_graph])"
  by (simp add: find_pattern_def)

text \<open>
  C7. The claim: a sentence with a head out of range is skipped and recorded as skipped,
  and the remaining sentences of the document are processed. For a document whose first
  sentence has such a head and whose second is well formed, \<^verbatim>\<open>_make_graphs\<close> returns
  \<^verbatim>\<open>None\<close>, which records no skip and holds no graph of the second sentence, and the
  search over the graph of the second sentence returns \<^verbatim>\<open>None\<close> too.
\<close>

theorem dangling_head_sentence_unhandled:
  "make_graphs PatternSearchPipeline [dangling_head_sentence, verb_noun_sentence] = Inr None
   \<and> find_pattern PatternSearchPipeline [verb_noun_graph] = (Inr None, [verb_noun_graph])"
  by (simp add: make_graphs_def find_pattern_def)

end
